theory Spec2Isabelle
  imports Complex_Main "HOL-Library.Word"
begin

section \<open>Point-cloud streaming server: \<^verbatim>\<open>services/server.py\<close>\<close>

text \<open>
  The development embeds the class \<^verbatim>\<open>RealSenseStreamer\<close> of \<^verbatim>\<open>services/server.py\<close>:
  the point-cloud builder \<^verbatim>\<open>generate_point_cloud\<close>, the encoder
  \<^verbatim>\<open>compress_point_cloud\<close>, one iteration of the loop of \<^verbatim>\<open>stream_to_clients\<close>
  and the connection handler \<^verbatim>\<open>handle_client\<close>.

  Conventions.
  \<^item> Every Python exception the code can meet is a value of \<open>py_error\<close>; a
    \<^verbatim>\<open>try\<close>/\<^verbatim>\<open>except\<close> is a case distinction on \<open>Inl\<close>.
  \<^item> Coordinates, the depth scale, the calibration and the timestamp are IEEE doubles in
    the program. The model computes the same expressions over \<open>real\<close>, that is without
    rounding, and without the infinities and NaN that a zero focal length produces in the
    program (HOL's \<open>x / 0\<close> is \<open>0\<close>).
  \<^item> The functions of the libraries \<^verbatim>\<open>json\<close> and \<^verbatim>\<open>gzip\<close> are parameters of the
    model (record \<open>libs\<close>); \<open>python_libs\<close> gives \<^verbatim>\<open>json.dumps\<close> and
    \<^verbatim>\<open>gzip.compress\<close> as Python has them, up to the text of a float and the bytes of
    a gzip member after its first three. A connection of the library \<^verbatim>\<open>websockets\<close>
    is a link state and the sequence of messages written to it.
\<close>

subsection \<open>Exceptions\<close>

datatype py_error =
    AttributeError
  | IndexError
  | CvError
  | JSONDecodeError
  | TypeError
  | ConnectionClosed
  | OtherError

subsection \<open>Arrays, frames, calibration, snapshots\<close>

text \<open>
  A two-dimensional \<^verbatim>\<open>numpy\<close> array: its shape and its cells. Indexing with \<^verbatim>\<open>a[y, x]\<close>
  raises \<^verbatim>\<open>IndexError\<close> outside the shape (the indices of the builder are never negative).
\<close>

record 'a ndarray =
  nrows :: nat
  ncols :: nat
  cell :: "nat \<Rightarrow> nat \<Rightarrow> 'a"

definition getitem :: "'a ndarray \<Rightarrow> nat \<Rightarrow> nat \<Rightarrow> py_error + 'a" where
  "getitem a y x = (if y < nrows a \<and> x < ncols a then Inr (cell a y x) else Inl IndexError)"

text \<open>A colour pixel is three bytes; the camera delivers them in the order blue, green, red.\<close>

type_synonym pixel = "8 word \<times> 8 word \<times> 8 word"

text \<open>
  \<^verbatim>\<open>cv2.cvtColor(color_image, cv2.COLOR_BGR2RGB)\<close>: exchanges the first and the third
  channel of every pixel; OpenCV rejects an image without pixels (\<^verbatim>\<open>cv2.error\<close>).
\<close>

definition bgr2rgb :: "pixel \<Rightarrow> pixel" where
  "bgr2rgb p = (case p of (b, g, r) \<Rightarrow> (r, g, b))"

definition cvtColor_BGR2RGB :: "pixel ndarray \<Rightarrow> py_error + pixel ndarray" where
  "cvtColor_BGR2RGB img =
     (if nrows img = 0 \<or> ncols img = 0 then Inl CvError
      else Inr (img\<lparr>cell := (\<lambda>y x. bgr2rgb (cell img y x))\<rparr>))"

text \<open>\<^verbatim>\<open>color_image[y, x].tolist()\<close>: the three channels as Python integers.\<close>

definition tolist :: "pixel \<Rightarrow> int list" where
  "tolist p = (case p of (c0, c1, c2) \<Rightarrow> [uint c0, uint c1, uint c2])"

text \<open>The calibration \<^verbatim>\<open>self.intrinsics\<close> (the four fields the builder reads).\<close>

record intrinsics =
  fx :: real
  fy :: real
  ppx :: real
  ppy :: real

text \<open>
  A depth frame: \<^verbatim>\<open>get_data()\<close> (format \<^verbatim>\<open>z16\<close>, unsigned 16-bit samples) and
  \<^verbatim>\<open>get_units()\<close>; a colour frame: \<^verbatim>\<open>get_data()\<close>.
\<close>

record depth_frame =
  depth_data :: "16 word ndarray"
  units :: real

record color_frame =
  color_data :: "pixel ndarray"

text \<open>The dictionary the builder returns, with its three keys.\<close>

record point_cloud =
  points :: "real list list"
  colors :: "int list list"
  timestamp :: real

subsection \<open>The builder \<^verbatim>\<open>generate_point_cloud\<close>\<close>

text \<open>\<^verbatim>\<open>range(0, n, 2)\<close>: the even numbers below \<open>n\<close>, ascending.\<close>

definition range2 :: "nat \<Rightarrow> nat list" where
  "range2 n = map (\<lambda>i. 2 * i) [0..<(n + 1) div 2]"

text \<open>
  A \<^verbatim>\<open>for\<close> loop whose body may raise: the loop stops at the first exception, which
  leaves the loop.
\<close>

fun for_each :: "('i \<Rightarrow> 's \<Rightarrow> py_error + 's) \<Rightarrow> 'i list \<Rightarrow> 's \<Rightarrow> py_error + 's" where
  "for_each body [] s = Inr s"
| "for_each body (i # is) s =
     (case body i s of Inl e \<Rightarrow> Inl e | Inr s' \<Rightarrow> for_each body is s')"

text \<open>Lines 74 to 92: the point of the pixel \<open>(y, x)\<close> with raw depth \<open>depth\<close>.\<close>

definition unproject :: "intrinsics \<Rightarrow> real \<Rightarrow> nat \<Rightarrow> nat \<Rightarrow> 16 word \<Rightarrow> real list" where
  "unproject K depth_scale y x depth =
     (let depth_meters = real (unat depth) * depth_scale;
          pixel_x = real x;
          pixel_y = real y;
          z = depth_meters;
          x_3d = (pixel_x - ppx K) * z / fx K;
          y_3d = (pixel_y - ppy K) * z / fy K
      in [x_3d, y_3d, z])"

text \<open>
  The body of the inner loop (lines 71 to 93) on the two lists \<^verbatim>\<open>points\<close> and
  \<^verbatim>\<open>colors\<close>. Reading a field of \<^verbatim>\<open>self.intrinsics\<close> when it is \<^verbatim>\<open>None\<close> raises
  \<^verbatim>\<open>AttributeError\<close>; this happens only for a pixel with a positive depth.
\<close>

definition pixel_body ::
  "intrinsics option \<Rightarrow> 16 word ndarray \<Rightarrow> pixel ndarray \<Rightarrow> real \<Rightarrow> nat \<Rightarrow> nat \<Rightarrow>
   real list list \<times> int list list \<Rightarrow> py_error + real list list \<times> int list list" where
  "pixel_body intr depth_image color_image depth_scale y x acc =
     (case getitem depth_image y x of
        Inl e \<Rightarrow> Inl e
      | Inr depth \<Rightarrow>
          if depth > 0 then
            (case intr of
               None \<Rightarrow> Inl AttributeError
             | Some K \<Rightarrow>
                 (case getitem color_image y x of
                    Inl e \<Rightarrow> Inl e
                  | Inr c \<Rightarrow>
                      Inr (fst acc @ [unproject K depth_scale y x depth],
                           snd acc @ [tolist c])))
          else Inr acc)"

text \<open>Lines 54 to 93: everything inside the \<^verbatim>\<open>try\<close> before the \<^verbatim>\<open>return\<close>.\<close>

definition build_lists ::
  "intrinsics option \<Rightarrow> depth_frame \<Rightarrow> color_frame \<Rightarrow>
   py_error + real list list \<times> int list list" where
  "build_lists intr depth_frame color_frame =
     (let depth_image = depth_data depth_frame in
      case cvtColor_BGR2RGB (color_data color_frame) of
        Inl e \<Rightarrow> Inl e
      | Inr color_image \<Rightarrow>
          (let height = nrows depth_image;
               width = ncols depth_image;
               depth_scale = units depth_frame
           in for_each
                (\<lambda>y. for_each (pixel_body intr depth_image color_image depth_scale y)
                        (range2 width))
                (range2 height) ([], [])))"

text \<open>
  \<^verbatim>\<open>generate_point_cloud\<close>: \<open>intr\<close> is \<^verbatim>\<open>self.intrinsics\<close>, \<open>now\<close> the value of
  \<^verbatim>\<open>time.time()\<close>. Any exception ends in the handler of line 101, which returns
  \<^verbatim>\<open>None\<close>.
\<close>

definition generate_point_cloud ::
  "intrinsics option \<Rightarrow> real \<Rightarrow> depth_frame \<Rightarrow> color_frame \<Rightarrow> point_cloud option" where
  "generate_point_cloud intr now depth_frame color_frame =
     (case build_lists intr depth_frame color_frame of
        Inl e \<Rightarrow> None
      | Inr (ps, cs) \<Rightarrow> Some \<lparr>points = ps, colors = cs, timestamp = now\<rparr>)"

subsection \<open>Which pixels the builder samples, and when it succeeds\<close>

text \<open>
  The pixels the two loops visit, in the order of the visit (row by row), and those among
  them whose depth sample is not zero.
\<close>

definition sampled_pixels :: "nat \<Rightarrow> nat \<Rightarrow> (nat \<times> nat) list" where
  "sampled_pixels h w = concat (map (\<lambda>y. map (\<lambda>x. (y, x)) (range2 w)) (range2 h))"

definition returned_pixels :: "16 word ndarray \<Rightarrow> (nat \<times> nat) list" where
  "returned_pixels d = filter (\<lambda>(y, x). cell d y x \<noteq> 0) (sampled_pixels (nrows d) (ncols d))"

text \<open>
  The body of the loop passes the pixel \<open>(y, x)\<close> without an exception: its depth is
  zero, or the calibration is there and the colour image has that pixel.
\<close>

definition pixel_ok ::
  "intrinsics option \<Rightarrow> 16 word ndarray \<Rightarrow> pixel ndarray \<Rightarrow> nat \<Rightarrow> nat \<Rightarrow> bool" where
  "pixel_ok intr d c y x \<longleftrightarrow> cell d y x = 0 \<or> (intr \<noteq> None \<and> y < nrows c \<and> x < ncols c)"

definition buildable :: "intrinsics option \<Rightarrow> depth_frame \<Rightarrow> color_frame \<Rightarrow> bool" where
  "buildable intr df cf \<longleftrightarrow>
     nrows (color_data cf) \<noteq> 0 \<and> ncols (color_data cf) \<noteq> 0 \<and>
     (\<forall>(y, x) \<in> set (sampled_pixels (nrows (depth_data df)) (ncols (depth_data df))).
        pixel_ok intr (depth_data df) (color_data cf) y x)"

subsection \<open>Library functions, connections, effects\<close>

text \<open>The values \<^verbatim>\<open>json\<close> reads and writes.\<close>

datatype json =
    JNull
  | JBool bool
  | JInt int
  | JFloat real
  | JStr string
  | JArr "json list"
  | JObj "(string \<times> json) list"

type_synonym bytes = "8 word list"

text \<open>
  \<^verbatim>\<open>json.dumps\<close>, \<^verbatim>\<open>json.loads\<close> and \<^verbatim>\<open>gzip.compress\<close>; each returns its result
  or raises. An object is the list of the items of the Python dictionary (one item for
  every key).
\<close>

record libs =
  json_dumps :: "json \<Rightarrow> py_error + string"
  json_loads :: "string \<Rightarrow> py_error + json"
  gzip_compress :: "bytes \<Rightarrow> py_error + bytes"

text \<open>
  A client is the connection object of the handler, named by \<^verbatim>\<open>id(websocket)\<close>.
  A message is a text frame or a binary frame.
\<close>

type_synonym client = nat

datatype message = Text string | Binary bytes

text \<open>
  The state of a connection as \<^verbatim>\<open>send\<close> meets it: \<open>Open\<close>, \<open>Closed\<close>
  (\<^verbatim>\<open>send\<close> raises \<^verbatim>\<open>ConnectionClosed\<close>) or \<open>Broken\<close> (\<^verbatim>\<open>send\<close> raises another
  exception).
\<close>

datatype link = Open | Closed | Broken

text \<open>What the server prints.\<close>

datatype log_line =
    NoFrame
  | GenerateError
  | CompressError
  | SendError
  | Removed nat nat
  | InvalidJSON client
  | MessageError py_error

text \<open>
  The effects of the server, in the order they happen: taking and releasing
  \<^verbatim>\<open>self.lock\<close>, a message written to a connection, a printed line.
\<close>

datatype event = Acquire | Release | Sent client message | Print log_line

text \<open>
  The streamer: \<^verbatim>\<open>self.clients\<close> (a set: a list without repetitions, in the order
  the set is iterated), the connections, and the effects so far.
\<close>

record streamer =
  clients :: "client list"
  links :: "client \<Rightarrow> link"
  trace :: "event list"

definition emit :: "event \<Rightarrow> streamer \<Rightarrow> streamer" where
  "emit e s = s\<lparr>trace := trace s @ [e]\<rparr>"

text \<open>\<^verbatim>\<open>await websocket.send(m)\<close>.\<close>

definition ws_send :: "client \<Rightarrow> message \<Rightarrow> streamer \<Rightarrow> py_error + streamer" where
  "ws_send c m s =
     (case links s c of
        Open \<Rightarrow> Inr (emit (Sent c m) s)
      | Closed \<Rightarrow> Inl ConnectionClosed
      | Broken \<Rightarrow> Inl OtherError)"

subsection \<open>The encoder \<^verbatim>\<open>compress_point_cloud\<close>\<close>

text \<open>The dictionary of the builder as \<^verbatim>\<open>json.dumps\<close> sees it.\<close>

definition cloud_json :: "point_cloud \<Rightarrow> json" where
  "cloud_json pc =
     JObj [(''points'', JArr (map (\<lambda>p. JArr (map JFloat p)) (points pc))),
           (''colors'', JArr (map (\<lambda>c. JArr (map JInt c)) (colors pc))),
           (''timestamp'', JFloat (timestamp pc))]"

text \<open>\<^verbatim>\<open>str.encode('utf-8')\<close> on the text of \<^verbatim>\<open>json.dumps\<close>, which is ASCII.\<close>

definition encode_utf8 :: "string \<Rightarrow> bytes" where
  "encode_utf8 txt = map (\<lambda>c. of_nat (of_char c)) txt"

definition compress_point_cloud :: "libs \<Rightarrow> point_cloud \<Rightarrow> bytes option" where
  "compress_point_cloud L point_cloud_data =
     (case json_dumps L (cloud_json point_cloud_data) of
        Inl e \<Rightarrow> None
      | Inr json_data \<Rightarrow>
          (case gzip_compress L (encode_utf8 json_data) of
             Inl e \<Rightarrow> None
           | Inr compressed_data \<Rightarrow> Some compressed_data))"

subsection \<open>One round of sending, one iteration of \<^verbatim>\<open>stream_to_clients\<close>\<close>

text \<open>
  The body of the loop of line 152 on \<^verbatim>\<open>disconnected_clients\<close> and the streamer. Both
  handlers catch; the second one prints.
\<close>

definition send_body :: "bytes \<Rightarrow> client \<Rightarrow> client set \<times> streamer \<Rightarrow> client set \<times> streamer" where
  "send_body compressed_data c st =
     (case ws_send c (Binary compressed_data) (snd st) of
        Inr s' \<Rightarrow> (fst st, s')
      | Inl e \<Rightarrow>
          if e = ConnectionClosed then (insert c (fst st), snd st)
          else (insert c (fst st), emit (Print SendError) (snd st)))"

text \<open>Lines 150 to 164: the block under \<^verbatim>\<open>with self.lock\<close>.\<close>

definition fan_out :: "bytes \<Rightarrow> streamer \<Rightarrow> streamer" where
  "fan_out compressed_data s =
     (let s1 = emit Acquire s;
          st = fold (send_body compressed_data) (clients s1) ({}, s1);
          disconnected_clients = fst st;
          s2 = (snd st)\<lparr>clients := filter (\<lambda>c. c \<notin> disconnected_clients) (clients (snd st))\<rparr>;
          s3 = (if disconnected_clients \<noteq> {}
                then emit (Print (Removed (card disconnected_clients) (length (clients s2)))) s2
                else s2)
      in emit Release s3)"

text \<open>
  The two parts of that block on their own: the loop of lines 152 to 159 over the members
  \<open>cs\<close>, from an empty \<^verbatim>\<open>disconnected_clients\<close>; and the body of the
  \<^verbatim>\<open>with\<close> statement (lines 151 to 164), that is the block without the taking and the
  release of the lock.
\<close>

definition send_loop :: "bytes \<Rightarrow> client list \<Rightarrow> streamer \<Rightarrow> client set \<times> streamer" where
  "send_loop compressed_data cs s1 = fold (send_body compressed_data) cs ({}, s1)"

definition locked_block :: "bytes \<Rightarrow> streamer \<Rightarrow> streamer" where
  "locked_block compressed_data s1 =
     (let st = send_loop compressed_data (clients s1) s1;
          disconnected_clients = fst st;
          s2 = (snd st)\<lparr>clients := filter (\<lambda>c. c \<notin> disconnected_clients) (clients (snd st))\<rparr>
      in if disconnected_clients \<noteq> {}
         then emit (Print (Removed (card disconnected_clients) (length (clients s2)))) s2
         else s2)"

text \<open>
  Lines 134 to 164: one iteration of the loop, from the frames that
  \<^verbatim>\<open>wait_for_frames\<close> and \<^verbatim>\<open>align.process\<close> delivered; a frame that is not there is
  \<open>None\<close>. The lines that the builder and the encoder print in their handlers are
  recorded here.
\<close>

definition tick ::
  "libs \<Rightarrow> intrinsics option \<Rightarrow> real \<Rightarrow> depth_frame option \<Rightarrow> color_frame option \<Rightarrow>
   streamer \<Rightarrow> streamer" where
  "tick L intr now depth_frame color_frame s =
     (case depth_frame of
        None \<Rightarrow> emit (Print NoFrame) s
      | Some df \<Rightarrow>
          (case color_frame of
             None \<Rightarrow> emit (Print NoFrame) s
           | Some cf \<Rightarrow>
               (case generate_point_cloud intr now df cf of
                  None \<Rightarrow> emit (Print GenerateError) s
                | Some point_cloud_data \<Rightarrow>
                    (case compress_point_cloud L point_cloud_data of
                       None \<Rightarrow> emit (Print CompressError) s
                     | Some compressed_data \<Rightarrow>
                         if compressed_data \<noteq> [] then fan_out compressed_data s else s))))"

subsection \<open>Control messages in \<^verbatim>\<open>handle_client\<close>\<close>

text \<open>
  \<^verbatim>\<open>data.get(key)\<close>: the value of the key, \<^verbatim>\<open>None\<close> when the dictionary lacks it;
  a value that is not a dictionary has no method \<^verbatim>\<open>get\<close>.
\<close>

definition dict_get :: "json \<Rightarrow> string \<Rightarrow> py_error + json" where
  "dict_get data key =
     (case data of
        JObj items \<Rightarrow> Inr (case map_of items key of None \<Rightarrow> JNull | Some v \<Rightarrow> v)
      | _ \<Rightarrow> Inl AttributeError)"

definition pong :: json where
  "pong = JObj [(''type'', JStr ''pong'')]"

text \<open>Lines 192 to 194: the body of the \<^verbatim>\<open>try\<close> for one received message.\<close>

definition message_body :: "libs \<Rightarrow> client \<Rightarrow> string \<Rightarrow> streamer \<Rightarrow> py_error + streamer" where
  "message_body L c msg s =
     (case json_loads L msg of
        Inl e \<Rightarrow> Inl e
      | Inr data \<Rightarrow>
          (case dict_get data ''type'' of
             Inl e \<Rightarrow> Inl e
           | Inr t \<Rightarrow>
               if t = JStr ''ping'' then
                 (case json_dumps L pong of
                    Inl e \<Rightarrow> Inl e
                  | Inr txt \<Rightarrow> ws_send c (Text txt) s)
               else Inr s))"

text \<open>Lines 191 to 198: one message, with the two handlers.\<close>

definition handle_message :: "libs \<Rightarrow> client \<Rightarrow> string \<Rightarrow> streamer \<Rightarrow> streamer" where
  "handle_message L c msg s =
     (case message_body L c msg s of
        Inr s' \<Rightarrow> s'
      | Inl e \<Rightarrow>
          if e = JSONDecodeError then emit (Print (InvalidJSON c)) s
          else emit (Print (MessageError e)) s)"

text \<open>The messages a connection was sent, and the lines printed, in a sequence of effects.\<close>

definition sent_to :: "client \<Rightarrow> event list \<Rightarrow> message list" where
  "sent_to c es = concat (map (\<lambda>e. case e of Sent c' m \<Rightarrow> (if c' = c then [m] else []) | _ \<Rightarrow> []) es)"

definition recipients :: "event list \<Rightarrow> client list" where
  "recipients es = concat (map (\<lambda>e. case e of Sent c m \<Rightarrow> [c] | _ \<Rightarrow> []) es)"

definition printed :: "event list \<Rightarrow> log_line list" where
  "printed es = concat (map (\<lambda>e. case e of Print l \<Rightarrow> [l] | _ \<Rightarrow> []) es)"

text \<open>
  Every message of a sequence of effects is written while the lock is free; \<open>held\<close>
  says whether the lock is taken at the start.
\<close>

fun sends_unlocked :: "bool \<Rightarrow> event list \<Rightarrow> bool" where
  "sends_unlocked held [] = True"
| "sends_unlocked held (Acquire # es) = sends_unlocked True es"
| "sends_unlocked held (Release # es) = sends_unlocked False es"
| "sends_unlocked held (Sent c m # es) = (\<not> held \<and> sends_unlocked held es)"
| "sends_unlocked held (Print l # es) = sends_unlocked held es"

text \<open>Every message of a sequence of effects is written while the lock is taken.\<close>

fun sends_locked :: "bool \<Rightarrow> event list \<Rightarrow> bool" where
  "sends_locked held [] = True"
| "sends_locked held (Acquire # es) = sends_locked True es"
| "sends_locked held (Release # es) = sends_locked False es"
| "sends_locked held (Sent c m # es) = (held \<and> sends_locked held es)"
| "sends_locked held (Print l # es) = sends_locked held es"

subsection \<open>\<^verbatim>\<open>json.dumps\<close> and \<^verbatim>\<open>gzip.compress\<close> as Python has them\<close>

text \<open>\<^verbatim>\<open>sep.join(xs)\<close>.\<close>

fun join :: "string \<Rightarrow> string list \<Rightarrow> string" where
  "join sep [] = []"
| "join sep [x] = x"
| "join sep (x # y # ys) = x @ sep @ join sep (y # ys)"

text \<open>The text of an integer: decimal digits, with a sign when it is negative.\<close>

function decimal :: "nat \<Rightarrow> string" where
  "decimal n = (if n < 10 then [char_of (48 + n)] else decimal (n div 10) @ [char_of (48 + n mod 10)])"
  by pat_completeness auto
termination
  by (relation "measure id") auto

definition int_repr :: "int \<Rightarrow> string" where
  "int_repr i = (if i < 0 then CHR ''-'' # decimal (nat (- i)) else decimal (nat i))"

text \<open>
  The text of a string, as \<^verbatim>\<open>json.dumps\<close> writes it with \<^verbatim>\<open>ensure_ascii\<close>: between
  double quotes, the double quote and the backslash behind a backslash, the five short
  escapes, every other character outside the printable ASCII range as \<^verbatim>\<open>\u00XX\<close>
  (a character of the model is a code point below 256).
\<close>

definition hex_digit :: "nat \<Rightarrow> char" where
  "hex_digit d = (if d < 10 then char_of (48 + d) else char_of (87 + d))"

definition escape_char :: "char \<Rightarrow> string" where
  "escape_char c =
     (if c = CHR 0x22 then [CHR 0x5C, CHR 0x22]
      else if c = CHR 0x5C then [CHR 0x5C, CHR 0x5C]
      else if c = CHR 0x0A then [CHR 0x5C, CHR ''n'']
      else if c = CHR 0x0D then [CHR 0x5C, CHR ''r'']
      else if c = CHR 0x09 then [CHR 0x5C, CHR ''t'']
      else if c = CHR 0x08 then [CHR 0x5C, CHR ''b'']
      else if c = CHR 0x0C then [CHR 0x5C, CHR ''f'']
      else if 32 \<le> (of_char c :: nat) \<and> (of_char c :: nat) < 127 then [c]
      else [CHR 0x5C, CHR ''u'', CHR ''0'', CHR ''0'',
            hex_digit ((of_char c :: nat) div 16), hex_digit ((of_char c :: nat) mod 16)])"

definition json_string :: "string \<Rightarrow> string" where
  "json_string s = CHR 0x22 # concat (map escape_char s) @ [CHR 0x22]"

text \<open>
  \<^verbatim>\<open>json.dumps(v)\<close> with its default arguments, on the values of type \<open>json\<close>: the
  separators are \<^verbatim>\<open>", "\<close> and \<^verbatim>\<open>": "\<close>, the items of a dictionary come in their
  order. The text of a float (\<^verbatim>\<open>float.__repr__\<close>) is the parameter \<open>float_repr\<close>.
  The function raises for a value that is not serializable and for a circular one; a
  value of type \<open>json\<close> is neither, so a text is returned for each.
\<close>

fun dumps_text :: "(real \<Rightarrow> string) \<Rightarrow> json \<Rightarrow> string" where
  "dumps_text float_repr JNull = ''null''"
| "dumps_text float_repr (JBool b) = (if b then ''true'' else ''false'')"
| "dumps_text float_repr (JInt i) = int_repr i"
| "dumps_text float_repr (JFloat r) = float_repr r"
| "dumps_text float_repr (JStr s) = json_string s"
| "dumps_text float_repr (JArr xs) = ''['' @ join '', '' (map (dumps_text float_repr) xs) @ '']''"
| "dumps_text float_repr (JObj items) =
     ''{'' @ join '', '' (map (\<lambda>kv. json_string (fst kv) @ '': '' @ dumps_text float_repr (snd kv)) items) @ ''}''"

text \<open>
  The libraries: \<^verbatim>\<open>json.dumps\<close> as above; \<^verbatim>\<open>json.loads\<close>, a parameter;
  \<^verbatim>\<open>gzip.compress\<close>, which returns one gzip member: the two bytes of the magic number
  and the byte of the compression method (deflate), then the rest of the header, the
  compressed blocks and the trailer, which are the parameter \<open>member_rest\<close>.
\<close>

definition python_libs ::
  "(real \<Rightarrow> string) \<Rightarrow> (string \<Rightarrow> py_error + json) \<Rightarrow> (bytes \<Rightarrow> bytes) \<Rightarrow> libs" where
  "python_libs float_repr loads member_rest =
     \<lparr>json_dumps = (\<lambda>j. Inr (dumps_text float_repr j)),
      json_loads = loads,
      gzip_compress = (\<lambda>b. Inr ([0x1f, 0x8b, 0x08] @ member_rest b))\<rparr>"

text \<open>
  The payload of the snapshot with two empty lists and the timestamp \<open>now\<close>, written
  out: the gzip member of the bytes of the text of that dictionary.
\<close>

definition empty_cloud_payload :: "(real \<Rightarrow> string) \<Rightarrow> (bytes \<Rightarrow> bytes) \<Rightarrow> real \<Rightarrow> bytes" where
  \<open>empty_cloud_payload float_repr member_rest now =
     [0x1f, 0x8b, 0x08] @
     member_rest (map (\<lambda>c. of_nat (of_char c))
       (''{"points": [], "colors": [], "timestamp": '' @ float_repr now @ ''}''))\<close>

subsection \<open>Effects of one step, and what a round writes\<close>

text \<open>The effects a step adds: those of the state after it that the state before it lacks.\<close>

definition new_events :: "streamer \<Rightarrow> streamer \<Rightarrow> event list" where
  "new_events s s' = drop (length (trace s)) (trace s')"

text \<open>
  What the loop of line 152 does for the members \<open>cs\<close>: a message to an open connection,
  nothing for a closed one, a printed line for a broken one.
\<close>

definition send_effects :: "bytes \<Rightarrow> (client \<Rightarrow> link) \<Rightarrow> client list \<Rightarrow> event list" where
  "send_effects data lk cs =
     concat (map (\<lambda>c. case lk c of Open \<Rightarrow> [Sent c (Binary data)] | Closed \<Rightarrow> [] | Broken \<Rightarrow> [Print SendError]) cs)"

text \<open>The members whose \<^verbatim>\<open>send\<close> raises.\<close>

definition failed :: "streamer \<Rightarrow> client set" where
  "failed s = {c \<in> set (clients s). links s c \<noteq> Open}"

subsection \<open>Concrete inputs\<close>

text \<open>
  A depth image of three rows and three columns whose only sample is 1000 at the pixel
  \<open>(2, 2)\<close>, a colour image of the same shape, a calibration with the principal point at
  that pixel; a depth image of zeros; a wider and a smaller colour image.
\<close>

definition ex_depth :: "16 word ndarray" where
  "ex_depth = \<lparr>nrows = 3, ncols = 3, cell = (\<lambda>y x. if y = 2 \<and> x = 2 then 1000 else 0)\<rparr>"

definition ex_color :: "pixel ndarray" where
  "ex_color = \<lparr>nrows = 3, ncols = 3, cell = (\<lambda>y x. (10, 20, 30))\<rparr>"

definition ex_K :: intrinsics where
  "ex_K = \<lparr>fx = 600, fy = 600, ppx = 2, ppy = 2\<rparr>"

definition zero_depth :: "16 word ndarray" where
  "zero_depth = \<lparr>nrows = 2, ncols = 2, cell = (\<lambda>y x. 0)\<rparr>"

definition wide_color :: "pixel ndarray" where
  "wide_color = \<lparr>nrows = 4, ncols = 5, cell = (\<lambda>y x. (10, 20, 30))\<rparr>"

definition small_color :: "pixel ndarray" where
  "small_color = \<lparr>nrows = 1, ncols = 1, cell = (\<lambda>y x. (10, 20, 30))\<rparr>"

text \<open>
  The frame of the camera as it is configured (480 rows, 640 columns) with the sample 1000
  at the pixel \<open>x = 320\<close>, \<open>y = 240\<close>, and the calibration \<open>fx = fy = 600\<close>,
  \<open>ppx = 320\<close>, \<open>ppy = 240\<close>.
\<close>

definition vga_depth :: "16 word ndarray" where
  "vga_depth = \<lparr>nrows = 480, ncols = 640, cell = (\<lambda>y x. if y = 240 \<and> x = 320 then 1000 else 0)\<rparr>"

definition vga_color :: "pixel ndarray" where
  "vga_color = \<lparr>nrows = 480, ncols = 640, cell = (\<lambda>y x. (10, 20, 30))\<rparr>"

definition spec_K :: intrinsics where
  "spec_K = \<lparr>fx = 600, fy = 600, ppx = 320, ppy = 240\<rparr>"

text \<open>Three registered clients; the connection of the second one is closed.\<close>

definition ex_streamer :: streamer where
  "ex_streamer = \<lparr>clients = [1, 2, 3], links = (\<lambda>c. if c = 2 then Closed else Open), trace = []\<rparr>"

text \<open>
  A stand-in for the three library functions that is right on the values of the examples:
  the two texts \<^verbatim>\<open>json.dumps\<close> writes for them, four received texts, and a compressor
  whose output starts with the magic number of gzip.
\<close>

definition sample_libs :: libs where
  \<open>sample_libs =
     \<lparr>json_dumps = (\<lambda>j. if j = pong then Inr ''{"type": "pong"}''
                        else if j = cloud_json \<lparr>points = [], colors = [], timestamp = 5\<rparr>
                        then Inr ''{"points": [], "colors": [], "timestamp": 5.0}''
                        else Inl TypeError),
      json_loads = (\<lambda>m. if m = ''{"type": "ping"}'' then Inr (JObj [(''type'', JStr ''ping'')])
                        else if m = ''{"type": "status"}'' then Inr (JObj [(''type'', JStr ''status'')])
                        else if m = ''[1]'' then Inr (JArr [JInt 1])
                        else Inl JSONDecodeError),
      gzip_compress = (\<lambda>b. Inr ([0x1f, 0x8b, 0x08] @ b))\<rparr>\<close>

text \<open>A stand-in for \<^verbatim>\<open>float.__repr__\<close> that is right on the timestamp of the examples.\<close>

definition sample_repr :: "real \<Rightarrow> string" where
  "sample_repr r = (if r = 5 then ''5.0'' else ''0.0'')"

section \<open>Properties of the builder\<close>

lemma set_range2: "set (range2 n) = {i. i < n \<and> even i}"
  unfolding range2_def by (auto elim!: evenE)

lemma set_sampled_pixels:
  "set (sampled_pixels h w) = {(y, x). y < h \<and> x < w \<and> even y \<and> even x}"
  by (auto simp: sampled_pixels_def set_range2)

lemma pixel_body_ok:
  assumes "y < nrows d" "x < ncols d" "pixel_ok intr d c y x"
  shows "pixel_body intr d c s y x acc =
     Inr (if cell d y x \<noteq> 0
          then (fst acc @ [unproject (the intr) s y x (cell d y x)], snd acc @ [tolist (cell c y x)])
          else acc)"
  using assms
  by (auto simp: pixel_body_def getitem_def pixel_ok_def word_greater_zero_iff split: option.splits)

lemma pixel_body_fail:
  assumes "y < nrows d" "x < ncols d" "\<not> pixel_ok intr d c y x"
  shows "isl (pixel_body intr d c s y x acc)"
  using assms
  by (auto simp: pixel_body_def getitem_def pixel_ok_def word_greater_zero_iff split: option.splits)

lemma row_ok:
  assumes "y < nrows d" "\<forall>x\<in>set xs. x < ncols d \<and> pixel_ok intr d c y x"
  shows "for_each (pixel_body intr d c s y) xs acc =
     Inr (fst acc @ map (\<lambda>x. unproject (the intr) s y x (cell d y x)) (filter (\<lambda>x. cell d y x \<noteq> 0) xs),
          snd acc @ map (\<lambda>x. tolist (cell c y x)) (filter (\<lambda>x. cell d y x \<noteq> 0) xs))"
  using assms
proof (induction xs arbitrary: acc)
  case Nil
  then show ?case by simp
next
  case (Cons x xs)
  then show ?case by (simp add: pixel_body_ok)
qed

lemma row_fail:
  assumes "y < nrows d" "\<forall>x\<in>set xs. x < ncols d" "\<exists>x\<in>set xs. \<not> pixel_ok intr d c y x"
  shows "isl (for_each (pixel_body intr d c s y) xs acc)"
  using assms
proof (induction xs arbitrary: acc)
  case Nil
  then show ?case by simp
next
  case (Cons x xs)
  show ?case
  proof (cases "pixel_ok intr d c y x")
    case True
    with Cons show ?thesis by (simp add: pixel_body_ok)
  next
    case False
    with Cons.prems have "isl (pixel_body intr d c s y x acc)"
      by (simp add: pixel_body_fail)
    then show ?thesis by (auto simp: isl_def)
  qed
qed

lemma grid_ok:
  assumes "\<forall>y\<in>set ys. y < nrows d" "\<forall>x\<in>set xs. x < ncols d"
    and "\<forall>y\<in>set ys. \<forall>x\<in>set xs. pixel_ok intr d c y x"
  shows "for_each (\<lambda>y. for_each (pixel_body intr d c s y) xs) ys acc =
     Inr (fst acc @ map (\<lambda>(y, x). unproject (the intr) s y x (cell d y x))
                     (filter (\<lambda>(y, x). cell d y x \<noteq> 0) (concat (map (\<lambda>y. map (\<lambda>x. (y, x)) xs) ys))),
          snd acc @ map (\<lambda>(y, x). tolist (cell c y x))
                     (filter (\<lambda>(y, x). cell d y x \<noteq> 0) (concat (map (\<lambda>y. map (\<lambda>x. (y, x)) xs) ys))))"
  using assms
proof (induction ys arbitrary: acc)
  case Nil then show ?case by simp
next
  case (Cons y ys)
  have row: "for_each (pixel_body intr d c s y) xs acc =
     Inr (fst acc @ map (\<lambda>x. unproject (the intr) s y x (cell d y x)) (filter (\<lambda>x. cell d y x \<noteq> 0) xs),
          snd acc @ map (\<lambda>x. tolist (cell c y x)) (filter (\<lambda>x. cell d y x \<noteq> 0) xs))"
    using Cons.prems by (intro row_ok) auto
  show ?case
    using Cons.prems by (simp add: row Cons.IH filter_map comp_def)
qed

lemma grid_fail:
  assumes "\<forall>y\<in>set ys. y < nrows d" "\<forall>x\<in>set xs. x < ncols d"
    and "\<exists>y\<in>set ys. \<exists>x\<in>set xs. \<not> pixel_ok intr d c y x"
  shows "isl (for_each (\<lambda>y. for_each (pixel_body intr d c s y) xs) ys acc)"
  using assms
proof (induction ys arbitrary: acc)
  case Nil then show ?case by simp
next
  case (Cons y ys)
  show ?case
  proof (cases "\<forall>x\<in>set xs. pixel_ok intr d c y x")
    case True
    have row: "for_each (pixel_body intr d c s y) xs acc =
       Inr (fst acc @ map (\<lambda>x. unproject (the intr) s y x (cell d y x)) (filter (\<lambda>x. cell d y x \<noteq> 0) xs),
            snd acc @ map (\<lambda>x. tolist (cell c y x)) (filter (\<lambda>x. cell d y x \<noteq> 0) xs))"
      using Cons.prems True by (intro row_ok) auto
    from True Cons.prems have "\<exists>y\<in>set ys. \<exists>x\<in>set xs. \<not> pixel_ok intr d c y x" by auto
    with Cons show ?thesis by (simp add: row)
  next
    case False
    with Cons.prems have "isl (for_each (pixel_body intr d c s y) xs acc)"
      by (intro row_fail) auto
    then show ?thesis by (auto simp: isl_def)
  qed
qed

lemma pixel_ok_rgb: "pixel_ok intr d (c\<lparr>cell := f\<rparr>) y x = pixel_ok intr d c y x"
  by (simp add: pixel_ok_def)

lemma build_lists_ok:
  assumes "buildable intr df cf"
  shows "build_lists intr df cf =
     Inr (map (\<lambda>(y, x). unproject (the intr) (units df) y x (cell (depth_data df) y x))
              (returned_pixels (depth_data df)),
          map (\<lambda>(y, x). tolist (bgr2rgb (cell (color_data cf) y x)))
              (returned_pixels (depth_data df)))"
proof -
  let ?d = "depth_data df" and ?c = "color_data cf\<lparr>cell := (\<lambda>y x. bgr2rgb (cell (color_data cf) y x))\<rparr>"
  have ok: "\<forall>y\<in>set (range2 (nrows ?d)). \<forall>x\<in>set (range2 (ncols ?d)). pixel_ok intr ?d ?c y x"
    using assms by (auto simp: buildable_def set_sampled_pixels set_range2 pixel_ok_rgb)
  have r: "\<forall>y\<in>set (range2 (nrows ?d)). y < nrows ?d" and c: "\<forall>x\<in>set (range2 (ncols ?d)). x < ncols ?d"
    by (auto simp: set_range2)
  note grid_ok [OF r c ok, of "units df" "([], [])"]
  then show ?thesis
    using assms
    by (simp add: build_lists_def cvtColor_BGR2RGB_def buildable_def returned_pixels_def sampled_pixels_def Let_def)
qed

lemma build_lists_fail:
  assumes "\<not> buildable intr df cf"
  shows "isl (build_lists intr df cf)"
proof (cases "nrows (color_data cf) = 0 \<or> ncols (color_data cf) = 0")
  case True
  then show ?thesis by (auto simp: build_lists_def cvtColor_BGR2RGB_def)
next
  case False
  let ?d = "depth_data df" and ?c = "color_data cf\<lparr>cell := (\<lambda>y x. bgr2rgb (cell (color_data cf) y x))\<rparr>"
  from False assms have bad: "\<exists>y\<in>set (range2 (nrows ?d)). \<exists>x\<in>set (range2 (ncols ?d)). \<not> pixel_ok intr ?d ?c y x"
    by (auto simp: buildable_def set_sampled_pixels set_range2 pixel_ok_rgb)
  have r: "\<forall>y\<in>set (range2 (nrows ?d)). y < nrows ?d" and c: "\<forall>x\<in>set (range2 (ncols ?d)). x < ncols ?d"
    by (auto simp: set_range2)
  from bad have "isl (for_each (\<lambda>y. for_each (pixel_body intr ?d ?c (units df) y) (range2 (ncols ?d)))
          (range2 (nrows ?d)) ([], []))"
    by (rule grid_fail [OF r c])
  with False show ?thesis
    by (simp add: build_lists_def cvtColor_BGR2RGB_def Let_def)
qed

lemma generate_point_cloud_ok:
  assumes "buildable intr df cf"
  shows "generate_point_cloud intr now df cf =
     Some \<lparr>points = map (\<lambda>(y, x). unproject (the intr) (units df) y x (cell (depth_data df) y x))
              (returned_pixels (depth_data df)),
           colors = map (\<lambda>(y, x). tolist (bgr2rgb (cell (color_data cf) y x)))
              (returned_pixels (depth_data df)),
           timestamp = now\<rparr>"
  by (simp add: generate_point_cloud_def build_lists_ok [OF assms])

lemma generate_point_cloud_None_iff:
  "generate_point_cloud intr now df cf = None \<longleftrightarrow> \<not> buildable intr df cf"
proof (cases "buildable intr df cf")
  case True
  then show ?thesis by (simp add: generate_point_cloud_ok)
next
  case False
  then have "isl (build_lists intr df cf)" by (rule build_lists_fail)
  with False show ?thesis by (auto simp: generate_point_cloud_def isl_def)
qed

lemma generate_point_cloud_Some:
  assumes "generate_point_cloud intr now df cf = Some pc"
  shows "buildable intr df cf"
    and "points pc = map (\<lambda>(y, x). unproject (the intr) (units df) y x (cell (depth_data df) y x))
              (returned_pixels (depth_data df))"
    and "colors pc = map (\<lambda>(y, x). tolist (bgr2rgb (cell (color_data cf) y x)))
              (returned_pixels (depth_data df))"
    and "timestamp pc = now"
proof -
  show b: "buildable intr df cf"
    using assms generate_point_cloud_None_iff [of intr now df cf] by auto
  from generate_point_cloud_ok [OF b, of now] assms
  have "pc = \<lparr>points = map (\<lambda>(y, x). unproject (the intr) (units df) y x (cell (depth_data df) y x))
              (returned_pixels (depth_data df)),
           colors = map (\<lambda>(y, x). tolist (bgr2rgb (cell (color_data cf) y x)))
              (returned_pixels (depth_data df)),
           timestamp = now\<rparr>" by simp
  then show "points pc = map (\<lambda>(y, x). unproject (the intr) (units df) y x (cell (depth_data df) y x))
              (returned_pixels (depth_data df))"
    and "colors pc = map (\<lambda>(y, x). tolist (bgr2rgb (cell (color_data cf) y x)))
              (returned_pixels (depth_data df))"
    and "timestamp pc = now"
    by simp_all
qed

lemma returned_pixels_empty:
  assumes "\<forall>(y, x) \<in> set (sampled_pixels (nrows d) (ncols d)). cell d y x = 0"
  shows "returned_pixels d = []"
  using assms by (auto simp: returned_pixels_def filter_empty_conv)

subsection \<open>The examples, evaluated\<close>

lemma ex_run:
  "generate_point_cloud (Some ex_K) 5 \<lparr>depth_data = ex_depth, units = 1 / 1000\<rparr> \<lparr>color_data = ex_color\<rparr>
   = Some \<lparr>points = [[0, 0, 1]], colors = [[30, 20, 10]], timestamp = 5\<rparr>"
  by (simp add: generate_point_cloud_def build_lists_def cvtColor_BGR2RGB_def range2_def
      pixel_body_def getitem_def unproject_def tolist_def bgr2rgb_def ex_depth_def ex_color_def ex_K_def
      upt_rec [of _ "numeral n" for n] Let_def)

lemma sampled33: "sampled_pixels 3 3 = [(0,0),(0,2),(2,0),(2,2)]"
  by (simp add: sampled_pixels_def range2_def upt_rec [of _ "numeral n" for n])

lemma zero_run:
  "generate_point_cloud None 5 \<lparr>depth_data = zero_depth, units = 1 / 1000\<rparr> \<lparr>color_data = ex_color\<rparr>
   = Some \<lparr>points = [], colors = [], timestamp = 5\<rparr>"
  by (simp add: generate_point_cloud_def build_lists_def cvtColor_BGR2RGB_def range2_def
      pixel_body_def getitem_def zero_depth_def ex_color_def
      upt_rec [of _ "numeral n" for n] Let_def)

lemma sampled22: "sampled_pixels 2 2 = [(0, 0)]"
  by (simp add: sampled_pixels_def range2_def upt_rec [of _ "numeral n" for n])

lemma wide_run: "generate_point_cloud (Some ex_K) 5 \<lparr>depth_data = ex_depth, units = 1 / 1000\<rparr> \<lparr>color_data = wide_color\<rparr>
     = Some \<lparr>points = [[0, 0, 1]], colors = [[30, 20, 10]], timestamp = 5\<rparr>"
  by (simp add: generate_point_cloud_def build_lists_def cvtColor_BGR2RGB_def range2_def
      pixel_body_def getitem_def unproject_def tolist_def bgr2rgb_def ex_depth_def wide_color_def ex_K_def
      upt_rec [of _ "numeral n" for n] Let_def)

lemma vga_buildable:
  "buildable (Some spec_K) \<lparr>depth_data = vga_depth, units = 1 / 1000\<rparr> \<lparr>color_data = vga_color\<rparr>"
  by (auto simp: buildable_def pixel_ok_def set_sampled_pixels vga_depth_def vga_color_def)

section \<open>Properties of a round of sending\<close>

lemma links_emit [simp]: "links (emit e s) = links s"
  and clients_emit [simp]: "clients (emit e s) = clients s"
  and trace_emit [simp]: "trace (emit e s) = trace s @ [e]"
  by (simp_all add: emit_def)

lemma send_body_eq:
  "send_body data c (D, s) =
     (if links s c = Open then D else insert c D,
      s\<lparr>trace := trace s @ send_effects data (links s) [c]\<rparr>)"
  by (cases "links s c") (simp_all add: send_body_def ws_send_def emit_def send_effects_def)

lemma fold_send_body:
  "fold (send_body data) cs (D, s) =
     (D \<union> {c \<in> set cs. links s c \<noteq> Open},
      s\<lparr>trace := trace s @ send_effects data (links s) cs\<rparr>)"
proof (induction cs arbitrary: D s)
  case Nil
  then show ?case by (simp add: send_effects_def)
next
  case (Cons c cs)
  show ?case
    by (simp add: send_body_eq Cons.IH) (auto simp: send_effects_def)
qed

lemma recipients_send_effects:
  "recipients (send_effects data lk cs) = filter (\<lambda>c. lk c = Open) cs"
  by (induction cs) (auto simp: recipients_def send_effects_def split: link.splits)

lemma sent_to_send_effects:
  "sent_to c (send_effects data lk cs) = map (\<lambda>_. Binary data) (filter (\<lambda>c'. c' = c \<and> lk c' = Open) cs)"
  by (induction cs) (auto simp: sent_to_def send_effects_def split: link.splits)

lemma fan_out_eq:
  "fan_out data s =
     s\<lparr>clients := filter (\<lambda>c. links s c = Open) (clients s),
       trace := trace s @ [Acquire] @ send_effects data (links s) (clients s) @
                (if failed s \<noteq> {}
                 then [Print (Removed (card (failed s)) (length (filter (\<lambda>c. links s c = Open) (clients s))))]
                 else []) @ [Release]\<rparr>"
proof -
  have f: "filter (\<lambda>c. c \<notin> failed s) (clients s) = filter (\<lambda>c. links s c = Open) (clients s)"
    by (rule filter_cong) (auto simp: failed_def)
  have "fold (send_body data) (clients s) ({}, emit Acquire s) =
        (failed s, (emit Acquire s)\<lparr>trace := trace (emit Acquire s) @ send_effects data (links s) (clients s)\<rparr>)"
    by (simp add: fold_send_body failed_def)
  moreover have "failed s = {} \<Longrightarrow> filter (\<lambda>c. links s c = Open) (clients s) = clients s"
    by (auto simp: failed_def filter_id_conv)
  ultimately show ?thesis
    by (cases "failed s = {}") (simp_all add: fan_out_def Let_def f emit_def)
qed

lemma recipients_append [simp]: "recipients (xs @ ys) = recipients xs @ recipients ys"
  by (simp add: recipients_def)

lemma sent_to_append [simp]: "sent_to c (xs @ ys) = sent_to c xs @ sent_to c ys"
  by (simp add: sent_to_def)

lemma printed_append [simp]: "printed (xs @ ys) = printed xs @ printed ys"
  by (simp add: printed_def)

lemma new_events_emit [simp]: "new_events s (emit e s) = [e]"
  by (simp add: new_events_def)

lemma filter_open_distinct:
  assumes "distinct cs" "c \<in> set cs"
  shows "filter (\<lambda>c'. c' = c \<and> lk c' = Open) cs = (if lk c = Open then [c] else [])"
  using assms by (induction cs) (auto simp: filter_empty_conv)

lemma new_events_fan_out:
  "new_events s (fan_out data s) =
     [Acquire] @ send_effects data (links s) (clients s) @
     (if failed s \<noteq> {}
      then [Print (Removed (card (failed s)) (length (filter (\<lambda>c. links s c = Open) (clients s))))]
      else []) @ [Release]"
  by (simp add: fan_out_eq new_events_def)

lemma recipients_simps [simp]:
  "recipients [] = []"
  "recipients (Acquire # es) = recipients es"
  "recipients (Release # es) = recipients es"
  "recipients (Print l # es) = recipients es"
  "recipients (Sent c m # es) = c # recipients es"
  by (simp_all add: recipients_def)

lemma sent_to_simps [simp]:
  "sent_to c [] = []"
  "sent_to c (Acquire # es) = sent_to c es"
  "sent_to c (Release # es) = sent_to c es"
  "sent_to c (Print l # es) = sent_to c es"
  "sent_to c (Sent c' m # es) = (if c' = c then m # sent_to c es else sent_to c es)"
  by (simp_all add: sent_to_def)

lemma recipients_fan_out:
  "recipients (new_events s (fan_out data s)) = filter (\<lambda>c. links s c = Open) (clients s)"
  by (simp add: new_events_fan_out recipients_send_effects)

lemma sent_to_fan_out:
  "sent_to c (new_events s (fan_out data s)) =
     map (\<lambda>_. Binary data) (filter (\<lambda>c'. c' = c \<and> links s c' = Open) (clients s))"
  by (simp add: new_events_fan_out sent_to_send_effects)

lemma sends_locked_send_effects:
  "sends_locked True (send_effects data lk cs @ es) = sends_locked True es"
  by (induction cs) (auto simp: send_effects_def split: link.splits)

lemma no_lock_in_send_effects:
  "Acquire \<notin> set (send_effects data lk cs)" "Release \<notin> set (send_effects data lk cs)"
  by (induction cs) (auto simp: send_effects_def split: link.splits)

lemma fan_out_locked_block:
  "fan_out data s = emit Release (locked_block data (emit Acquire s))"
  by (simp add: fan_out_def locked_block_def send_loop_def Let_def)

lemma clients_send_loop:
  "clients (snd (send_loop data cs s1)) = clients s1"
  by (simp add: send_loop_def fold_send_body)

lemma locked_block_eq:
  "locked_block data (emit Acquire s) =
     s\<lparr>clients := filter (\<lambda>c. links s c = Open) (clients s),
       trace := trace s @ [Acquire] @ send_effects data (links s) (clients s) @
                (if failed s \<noteq> {}
                 then [Print (Removed (card (failed s)) (length (filter (\<lambda>c. links s c = Open) (clients s))))]
                 else [])\<rparr>"
proof -
  have f: "filter (\<lambda>c. c \<notin> failed s) (clients s) = filter (\<lambda>c. links s c = Open) (clients s)"
    by (rule filter_cong) (auto simp: failed_def)
  have "send_loop data (clients s) (emit Acquire s) =
        (failed s, (emit Acquire s)\<lparr>trace := trace (emit Acquire s) @ send_effects data (links s) (clients s)\<rparr>)"
    by (simp add: send_loop_def fold_send_body failed_def)
  moreover have "failed s = {} \<Longrightarrow> filter (\<lambda>c. links s c = Open) (clients s) = clients s"
    by (auto simp: failed_def filter_id_conv)
  ultimately show ?thesis
    by (cases "failed s = {}") (simp_all add: locked_block_def Let_def f emit_def)
qed

section \<open>Properties of the encoder\<close>

lemma json_string_points: \<open>json_string ''points'' = ''"points"''\<close>
  \<open>json_string ''colors'' = ''"colors"''\<close>  \<open>json_string ''timestamp'' = ''"timestamp"''\<close>
  by (simp_all add: json_string_def escape_char_def)

lemma dumps_empty:
  \<open>dumps_text fr (cloud_json \<lparr>points = [], colors = [], timestamp = now\<rparr>) =
     ''{"points": [], "colors": [], "timestamp": '' @ fr now @ ''}''\<close>
  by (simp add: cloud_json_def json_string_points)

lemma compress_empty:
  "compress_point_cloud (python_libs float_repr loads member_rest)
     \<lparr>points = [], colors = [], timestamp = now\<rparr> =
   Some (empty_cloud_payload float_repr member_rest now)"
  by (simp add: compress_point_cloud_def python_libs_def dumps_empty encode_utf8_def
      empty_cloud_payload_def)

lemma empty_cloud_payload_nonempty: "empty_cloud_payload float_repr member_rest now \<noteq> []"
  by (simp add: empty_cloud_payload_def)

section \<open>One iteration\<close>

lemma tick_skip:
  assumes "generate_point_cloud intr now df cf = None"
  shows "tick L intr now (Some df) (Some cf) s = emit (Print GenerateError) s"
  using assms by (simp add: tick_def)

subsection \<open>A round, evaluated\<close>

lemma ex_fan_out:
  "fan_out [1, 2] ex_streamer =
     \<lparr>clients = [1, 3], links = (\<lambda>c. if c = 2 then Closed else Open),
      trace = [Acquire, Sent 1 (Binary [1, 2]), Sent 3 (Binary [1, 2]), Print (Removed 1 2), Release]\<rparr>"
  by (simp add: fan_out_def send_body_def ws_send_def emit_def ex_streamer_def Let_def)

section \<open>Properties of the handling of a control message\<close>

lemma handle_message_keeps:
  "links (handle_message L c msg s) = links s \<and> clients (handle_message L c msg s) = clients s"
  by (auto simp: handle_message_def message_body_def ws_send_def dict_get_def
      split: sum.splits link.splits json.splits option.splits)

lemma dict_get_not_object:
  assumes "\<forall>items. data \<noteq> JObj items"
  shows "dict_get data key = Inl AttributeError"
  using assms by (cases data) (simp_all add: dict_get_def)

subsection \<open>Received messages, evaluated\<close>

lemma ex_pong: \<open>json_dumps sample_libs pong = Inr ''{"type": "pong"}''\<close>
  by (simp add: sample_libs_def)

lemma ex_loads:
  \<open>json_loads sample_libs ''{"type": "ping"}'' = Inr (JObj [(''type'', JStr ''ping'')])\<close>
  \<open>json_loads sample_libs ''{"type": "status"}'' = Inr (JObj [(''type'', JStr ''status'')])\<close>
  \<open>json_loads sample_libs ''[1]'' = Inr (JArr [JInt 1])\<close>
  \<open>json_loads sample_libs ''hello'' = Inl JSONDecodeError\<close>
  by (simp_all add: sample_libs_def)

section \<open>The claims\<close>

text \<open>
  Claim C1. Whenever the builder returns a snapshot for a calibration with nonzero focal
  lengths, its points are, in the order of the visit, the points
  \<open>[(x - ppx) * z / fx, (y - ppy) * z / fy, z]\<close> with \<open>z = depth * scale\<close> of the
  sampled pixels \<open>(y, x)\<close> whose depth is not zero, and its colours are the colours of the
  same pixels; the sampled pixels are those of the depth grid with even row and even
  column (stride 2). With \<open>fx = fy = 600\<close>, \<open>ppx = 320\<close>, \<open>ppy = 240\<close> and the depth
  scale 0.001, a depth grid whose pixel \<open>x = 320\<close>, \<open>y = 240\<close> has the raw depth 1000
  gives the point \<open>[0, 0, 1]\<close>.
\<close>

theorem C1_unprojection:
  assumes "generate_point_cloud (Some K) now df cf = Some pc"
    and "fx K \<noteq> 0" and "fy K \<noteq> 0"
  shows "points pc =
           map (\<lambda>(y, x). let z = real (unat (cell (depth_data df) y x)) * units df
                          in [(real x - ppx K) * z / fx K, (real y - ppy K) * z / fy K, z])
               (filter (\<lambda>(y, x). cell (depth_data df) y x \<noteq> 0)
                  (sampled_pixels (nrows (depth_data df)) (ncols (depth_data df))))
         \<and> colors pc =
           map (\<lambda>(y, x). tolist (bgr2rgb (cell (color_data cf) y x)))
               (filter (\<lambda>(y, x). cell (depth_data df) y x \<noteq> 0)
                  (sampled_pixels (nrows (depth_data df)) (ncols (depth_data df))))
         \<and> set (sampled_pixels (nrows (depth_data df)) (ncols (depth_data df))) =
             {(y, x). y < nrows (depth_data df) \<and> x < ncols (depth_data df) \<and> even y \<and> even x}
         \<and> (K = \<lparr>fx = 600, fy = 600, ppx = 320, ppy = 240\<rparr> \<and> units df = 1 / 1000 \<and>
             240 < nrows (depth_data df) \<and> 320 < ncols (depth_data df) \<and>
             cell (depth_data df) 240 320 = 1000 \<longrightarrow>
             [0, 0, 1] \<in> set (points pc))"
proof -
  note r = generate_point_cloud_Some [OF assms(1)]
  have p: "points pc =
           map (\<lambda>(y, x). let z = real (unat (cell (depth_data df) y x)) * units df
                          in [(real x - ppx K) * z / fx K, (real y - ppy K) * z / fy K, z])
               (returned_pixels (depth_data df))"
    unfolding r(2) by (simp add: unproject_def Let_def)
  have "[0, 0, 1] \<in> set (points pc)"
    if k: "K = \<lparr>fx = 600, fy = 600, ppx = 320, ppy = 240\<rparr>" and u: "units df = 1 / 1000"
      and rng: "240 < nrows (depth_data df)" "320 < ncols (depth_data df)"
      and d: "cell (depth_data df) 240 320 = 1000"
  proof -
    from rng d have "(240, 320) \<in> set (returned_pixels (depth_data df))"
      by (simp add: returned_pixels_def set_sampled_pixels)
    then have "unproject K (units df) 240 320 (cell (depth_data df) 240 320) \<in> set (points pc)"
      unfolding r(2) by force
    moreover have "unproject K (units df) 240 320 (cell (depth_data df) 240 320) = [0, 0, 1]"
      by (simp add: unproject_def k u d)
    ultimately show ?thesis by simp
  qed
  with p r(3) show ?thesis
    by (simp add: returned_pixels_def set_sampled_pixels)
qed

theorem C1_unprojection_witness:
  "generate_point_cloud (Some ex_K) 5 \<lparr>depth_data = ex_depth, units = 1 / 1000\<rparr> \<lparr>color_data = ex_color\<rparr>
     = Some \<lparr>points = [[0, 0, 1]], colors = [[30, 20, 10]], timestamp = 5\<rparr>
   \<and> fx ex_K \<noteq> 0 \<and> fy ex_K \<noteq> 0
   \<and> [[0, 0, 1]] =
       map (\<lambda>(y, x). let z = real (unat (cell ex_depth y x)) * (1 / 1000)
                      in [(real x - ppx ex_K) * z / fx ex_K, (real y - ppy ex_K) * z / fy ex_K, z])
           (filter (\<lambda>(y, x). cell ex_depth y x \<noteq> 0) (sampled_pixels 3 3))
   \<and> generate_point_cloud (Some spec_K) 5
        \<lparr>depth_data = vga_depth, units = 1 / 1000\<rparr> \<lparr>color_data = vga_color\<rparr> \<noteq> None
   \<and> spec_K = \<lparr>fx = 600, fy = 600, ppx = 320, ppy = 240\<rparr>
   \<and> fx spec_K \<noteq> 0 \<and> fy spec_K \<noteq> 0
   \<and> 240 < nrows vga_depth \<and> 320 < ncols vga_depth \<and> cell vga_depth 240 320 = 1000
   \<and> [0, 0, 1] \<in> set (points (the (generate_point_cloud (Some spec_K) 5
        \<lparr>depth_data = vga_depth, units = 1 / 1000\<rparr> \<lparr>color_data = vga_color\<rparr>)))"
proof -
  have nz: "fx ex_K \<noteq> 0" "fy ex_K \<noteq> 0" by (simp_all add: ex_K_def)
  from C1_unprojection [OF ex_run nz]
  have small: "[[0, 0, 1]] =
       map (\<lambda>(y, x). let z = real (unat (cell ex_depth y x)) * (1 / 1000)
                      in [(real x - ppx ex_K) * z / fx ex_K, (real y - ppy ex_K) * z / fy ex_K, z])
           (filter (\<lambda>(y, x). cell ex_depth y x \<noteq> 0) (sampled_pixels 3 3))"
    by (simp add: ex_depth_def)
  obtain pc where run: "generate_point_cloud (Some spec_K) 5
        \<lparr>depth_data = vga_depth, units = 1 / 1000\<rparr> \<lparr>color_data = vga_color\<rparr> = Some pc"
    using generate_point_cloud_ok [OF vga_buildable] by blast
  have k: "spec_K = \<lparr>fx = 600, fy = 600, ppx = 320, ppy = 240\<rparr>"
    and snz: "fx spec_K \<noteq> 0" "fy spec_K \<noteq> 0"
    by (simp_all add: spec_K_def)
  have v: "240 < nrows vga_depth" "320 < ncols vga_depth" "cell vga_depth 240 320 = 1000"
    by (simp_all add: vga_depth_def)
  have "[0, 0, 1] \<in> set (points pc)"
    by (rule C1_unprojection [OF run snz, THEN conjunct2, THEN conjunct2, THEN conjunct2, THEN mp])
      (simp add: k v)
  with run ex_run nz small k snz v show ?thesis
    by simp
qed

text \<open>
  Claim C2. In every snapshot the builder returns, \<^verbatim>\<open>points\<close> and \<^verbatim>\<open>colors\<close> have the
  same length, the entries at an index \<open>i\<close> are the point and the colour of one pixel, the
  \<open>i\<close>-th sampled pixel with a depth that is not zero (so no entry comes from a sample of
  depth zero); and a depth grid whose sampled pixels are all zero gives, with any colour
  image that has pixels, the snapshot with two empty lists.
\<close>

theorem C2_parallel_lists:
  "(\<forall>pc. generate_point_cloud intr now df cf = Some pc \<longrightarrow>
      length (points pc) = length (colors pc) \<and>
      length (points pc) = length (returned_pixels (depth_data df)) \<and>
      (\<forall>i < length (points pc).
         case returned_pixels (depth_data df) ! i of
           (y, x) \<Rightarrow>
             y < nrows (depth_data df) \<and> x < ncols (depth_data df) \<and>
             cell (depth_data df) y x \<noteq> 0 \<and>
             (\<exists>K. intr = Some K \<and>
                  points pc ! i = unproject K (units df) y x (cell (depth_data df) y x)) \<and>
             colors pc ! i = tolist (bgr2rgb (cell (color_data cf) y x))))
   \<and> ((\<forall>(y, x) \<in> set (sampled_pixels (nrows (depth_data df)) (ncols (depth_data df))).
          cell (depth_data df) y x = 0) \<and>
       nrows (color_data cf) \<noteq> 0 \<and> ncols (color_data cf) \<noteq> 0 \<longrightarrow>
       generate_point_cloud intr now df cf = Some \<lparr>points = [], colors = [], timestamp = now\<rparr>)"
proof (rule conjI)
  show "\<forall>pc. generate_point_cloud intr now df cf = Some pc \<longrightarrow>
      length (points pc) = length (colors pc) \<and>
      length (points pc) = length (returned_pixels (depth_data df)) \<and>
      (\<forall>i < length (points pc).
         case returned_pixels (depth_data df) ! i of
           (y, x) \<Rightarrow>
             y < nrows (depth_data df) \<and> x < ncols (depth_data df) \<and>
             cell (depth_data df) y x \<noteq> 0 \<and>
             (\<exists>K. intr = Some K \<and>
                  points pc ! i = unproject K (units df) y x (cell (depth_data df) y x)) \<and>
             colors pc ! i = tolist (bgr2rgb (cell (color_data cf) y x)))"
    (is "\<forall>pc. ?H pc \<longrightarrow> ?L1 pc \<and> ?L2 pc \<and> (\<forall>i < length (points pc). ?N pc i)")
  proof (rule allI, rule impI)
    fix pc
    assume a: "?H pc"
    note r = generate_point_cloud_Some [OF a]
    have l1: "?L1 pc"
      by (simp add: r(2,3))
    have len: "?L2 pc"
      by (simp add: r(2))
    have "?N pc i" if i: "i < length (points pc)" for i
    proof -
      obtain y x where yx: "returned_pixels (depth_data df) ! i = (y, x)"
        by (cases "returned_pixels (depth_data df) ! i")
      from i len have "(y, x) \<in> set (returned_pixels (depth_data df))"
        using yx nth_mem by metis
      then have mem: "(y, x) \<in> set (sampled_pixels (nrows (depth_data df)) (ncols (depth_data df)))"
        and nz: "cell (depth_data df) y x \<noteq> 0"
        by (auto simp: returned_pixels_def)
      from mem have rng: "y < nrows (depth_data df)" "x < ncols (depth_data df)"
        by (auto simp: set_sampled_pixels)
      from r(1) mem nz have "intr \<noteq> None"
        by (auto simp: buildable_def pixel_ok_def)
      then obtain K where K: "intr = Some K" by auto
      from i len have "points pc ! i = unproject K (units df) y x (cell (depth_data df) y x)"
        and "colors pc ! i = tolist (bgr2rgb (cell (color_data cf) y x))"
        by (simp_all add: r(2,3) yx K)
      with rng nz K show ?thesis
        by (simp add: yx)
    qed
    with l1 len show "?L1 pc \<and> ?L2 pc \<and> (\<forall>i < length (points pc). ?N pc i)"
      by blast
  qed
next
  show "(\<forall>(y, x) \<in> set (sampled_pixels (nrows (depth_data df)) (ncols (depth_data df))).
          cell (depth_data df) y x = 0) \<and>
       nrows (color_data cf) \<noteq> 0 \<and> ncols (color_data cf) \<noteq> 0 \<longrightarrow>
       generate_point_cloud intr now df cf = Some \<lparr>points = [], colors = [], timestamp = now\<rparr>"
  proof (rule impI)
    assume z: "(\<forall>(y, x) \<in> set (sampled_pixels (nrows (depth_data df)) (ncols (depth_data df))).
          cell (depth_data df) y x = 0) \<and>
       nrows (color_data cf) \<noteq> 0 \<and> ncols (color_data cf) \<noteq> 0"
    then have "buildable intr df cf"
      by (auto simp: buildable_def pixel_ok_def)
    moreover from z have "returned_pixels (depth_data df) = []"
      by (intro returned_pixels_empty) simp
    ultimately show "generate_point_cloud intr now df cf = Some \<lparr>points = [], colors = [], timestamp = now\<rparr>"
      by (simp add: generate_point_cloud_ok)
  qed
qed

theorem C2_parallel_lists_witness:
  "generate_point_cloud (Some ex_K) 5 \<lparr>depth_data = ex_depth, units = 1 / 1000\<rparr> \<lparr>color_data = ex_color\<rparr>
     = Some \<lparr>points = [[0, 0, 1]], colors = [[30, 20, 10]], timestamp = 5\<rparr>
   \<and> returned_pixels ex_depth = [(2, 2)]
   \<and> (0::nat) < length [[0, 0, 1::real]]
   \<and> cell ex_depth 2 2 \<noteq> 0
   \<and> [[0, 0, 1]] ! 0 = unproject ex_K (1 / 1000) 2 2 (cell ex_depth 2 2)
   \<and> [[30, 20, 10]] ! 0 = tolist (bgr2rgb (cell ex_color 2 2))
   \<and> sampled_pixels 2 2 = [(0, 0)] \<and> cell zero_depth 0 0 = 0
   \<and> nrows ex_color \<noteq> 0 \<and> ncols ex_color \<noteq> 0
   \<and> generate_point_cloud None 5 \<lparr>depth_data = zero_depth, units = 1 / 1000\<rparr> \<lparr>color_data = ex_color\<rparr>
     = Some \<lparr>points = [], colors = [], timestamp = 5\<rparr>"
proof -
  have rp: "returned_pixels ex_depth = [(2, 2)]"
    by (simp add: returned_pixels_def sampled33 ex_depth_def)
  have z: "(\<forall>(y, x) \<in> set (sampled_pixels 2 2). cell zero_depth y x = 0)
       \<and> nrows ex_color \<noteq> 0 \<and> ncols ex_color \<noteq> 0"
    by (simp add: sampled22 zero_depth_def ex_color_def)
  from C2_parallel_lists [of "Some ex_K" 5 "\<lparr>depth_data = ex_depth, units = 1 / 1000\<rparr>" "\<lparr>color_data = ex_color\<rparr>"]
    ex_run rp
  have one: "[[0, 0, 1]] ! 0 = unproject ex_K (1 / 1000) 2 2 (cell ex_depth 2 2)
      \<and> [[30, 20, 10]] ! 0 = tolist (bgr2rgb (cell ex_color 2 2)) \<and> cell ex_depth 2 2 \<noteq> 0"
    by simp
  from C2_parallel_lists [of None 5 "\<lparr>depth_data = zero_depth, units = 1 / 1000\<rparr>" "\<lparr>color_data = ex_color\<rparr>"] z
  have two: "generate_point_cloud None 5 \<lparr>depth_data = zero_depth, units = 1 / 1000\<rparr> \<lparr>color_data = ex_color\<rparr>
     = Some \<lparr>points = [], colors = [], timestamp = 5\<rparr>"
    by (simp add: zero_depth_def)
  from ex_run rp one two z show ?thesis by (simp add: sampled22)
qed

text \<open>
  Claim C4, as the code has it. One round writes, in this order: the taking of the lock,
  for each member of the registry as it is when the round starts, in the order of the
  iteration, the effect of one send (the payload on an open connection), the line about
  the removed members when a send failed, and the release of the lock. No lock operation
  lies between the sends, so every message of the round is written while the lock is
  taken: the send loop runs inside the critical section. After every number of steps of
  the send loop the registry is the one the round started with; the loop only marks the
  members whose send fails. The block under the lock ends with these members removed from
  the registry and the lock not yet released; the round is the release after that block.
\<close>

theorem C4_round_holds_lock:
  "new_events s (fan_out data s) =
     [Acquire] @ send_effects data (links s) (clients s) @
     (if failed s \<noteq> {}
      then [Print (Removed (card (failed s)) (length (filter (\<lambda>c. links s c = Open) (clients s))))]
      else []) @ [Release]
   \<and> Acquire \<notin> set (send_effects data (links s) (clients s))
   \<and> Release \<notin> set (send_effects data (links s) (clients s))
   \<and> sends_locked False (new_events s (fan_out data s))
   \<and> recipients (new_events s (fan_out data s)) = filter (\<lambda>c. links s c = Open) (clients s)
   \<and> clients (fan_out data s) = filter (\<lambda>c. c \<notin> failed s) (clients s)
   \<and> (\<forall>n. clients (snd (send_loop data (take n (clients s)) (emit Acquire s))) = clients s)
   \<and> fst (send_loop data (clients s) (emit Acquire s)) = failed s
   \<and> fan_out data s = emit Release (locked_block data (emit Acquire s))
   \<and> clients (locked_block data (emit Acquire s)) = filter (\<lambda>c. c \<notin> failed s) (clients s)
   \<and> Release \<notin> set (new_events s (locked_block data (emit Acquire s)))"
proof -
  have f: "filter (\<lambda>c. c \<notin> failed s) (clients s) = filter (\<lambda>c. links s c = Open) (clients s)"
    by (rule filter_cong) (auto simp: failed_def)
  have c: "clients (fan_out data s) = filter (\<lambda>c. links s c = Open) (clients s)"
    by (simp add: fan_out_eq)
  have l: "sends_locked False (new_events s (fan_out data s))"
    by (simp add: new_events_fan_out sends_locked_send_effects)
  have during: "\<forall>n. clients (snd (send_loop data (take n (clients s)) (emit Acquire s))) = clients s"
    by (simp add: clients_send_loop)
  have marked: "fst (send_loop data (clients s) (emit Acquire s)) = failed s"
    by (simp add: send_loop_def fold_send_body failed_def)
  have before: "clients (locked_block data (emit Acquire s)) = filter (\<lambda>c. links s c = Open) (clients s)"
    by (simp add: locked_block_eq)
  have held: "Release \<notin> set (new_events s (locked_block data (emit Acquire s)))"
    by (simp add: locked_block_eq new_events_def no_lock_in_send_effects)
  have shape: "new_events s (fan_out data s) =
     [Acquire] @ send_effects data (links s) (clients s) @
     (if failed s \<noteq> {}
      then [Print (Removed (card (failed s)) (length (filter (\<lambda>c. links s c = Open) (clients s))))]
      else []) @ [Release]"
    by (rule new_events_fan_out)
  have r: "recipients (new_events s (fan_out data s)) = filter (\<lambda>c. links s c = Open) (clients s)"
    by (rule recipients_fan_out)
  note no_lock_in_send_effects [of data "links s" "clients s"]
  with shape l r c f during marked before held fan_out_locked_block [of data s] show ?thesis
    by (intro conjI) simp_all
qed

text \<open>
  Claim C4 as stated (the sends run outside the critical section) fails: in the round for
  the three example clients the payload is written while the lock is held.
\<close>

theorem C4_sends_inside_lock_counterexample:
  "\<not> sends_unlocked False (new_events ex_streamer (fan_out [1, 2] ex_streamer))"
proof -
  have "trace ex_streamer = []"
    by (simp add: ex_streamer_def)
  then show ?thesis
    by (simp add: ex_fan_out new_events_def)
qed



text \<open>
  Claim C8, as the code has it. For a message received on an open connection, with the
  text \<^verbatim>\<open>json.dumps\<close> writes for the reply: a JSON object whose \<^verbatim>\<open>type\<close> is
  \<^verbatim>\<open>ping\<close> gives exactly one reply, the pong, and no printed line; a text that is not
  JSON gives the line about invalid JSON and nothing else; another exception of
  \<^verbatim>\<open>json.loads\<close>, and a JSON value that is not an object, give the line about an error
  and nothing else; a JSON object of another \<^verbatim>\<open>type\<close>, or without one, changes nothing:
  it is ignored and no line is printed. In every case the handler returns, the connection
  is as it was and so is the registry.
\<close>

theorem C8_control_messages:
  assumes op: "links s c = Open"
    and dumps: "json_dumps L pong = Inr txt"
  shows "(\<forall>items. json_loads L msg = Inr (JObj items) \<and> map_of items ''type'' = Some (JStr ''ping'') \<longrightarrow>
            handle_message L c msg s = emit (Sent c (Text txt)) s)
    \<and> (json_loads L msg = Inl JSONDecodeError \<longrightarrow>
            handle_message L c msg s = emit (Print (InvalidJSON c)) s)
    \<and> (\<forall>e. json_loads L msg = Inl e \<and> e \<noteq> JSONDecodeError \<longrightarrow>
            handle_message L c msg s = emit (Print (MessageError e)) s)
    \<and> (\<forall>data. json_loads L msg = Inr data \<and> (\<forall>items. data \<noteq> JObj items) \<longrightarrow>
            handle_message L c msg s = emit (Print (MessageError AttributeError)) s)
    \<and> (\<forall>items. json_loads L msg = Inr (JObj items) \<and> map_of items ''type'' \<noteq> Some (JStr ''ping'') \<longrightarrow>
            handle_message L c msg s = s)
    \<and> links (handle_message L c msg s) = links s
    \<and> clients (handle_message L c msg s) = clients s"
proof -
  have ping: "handle_message L c msg s = emit (Sent c (Text txt)) s"
    if "json_loads L msg = Inr (JObj items)" "map_of items ''type'' = Some (JStr ''ping'')" for items
    using that op dumps
    by (simp add: handle_message_def message_body_def dict_get_def ws_send_def)
  have bad: "handle_message L c msg s = emit (Print (InvalidJSON c)) s"
    if "json_loads L msg = Inl JSONDecodeError"
    using that by (simp add: handle_message_def message_body_def)
  have other: "handle_message L c msg s = emit (Print (MessageError e)) s"
    if "json_loads L msg = Inl e" "e \<noteq> JSONDecodeError" for e
    using that by (simp add: handle_message_def message_body_def)
  have nonobj: "handle_message L c msg s = emit (Print (MessageError AttributeError)) s"
    if "json_loads L msg = Inr data" "\<forall>items. data \<noteq> JObj items" for data
    using that by (simp add: handle_message_def message_body_def dict_get_not_object)
  have unrec: "handle_message L c msg s = s"
    if "json_loads L msg = Inr (JObj items)" "map_of items ''type'' \<noteq> Some (JStr ''ping'')" for items
    using that
    by (auto simp: handle_message_def message_body_def dict_get_def split: option.splits)
  from ping bad other nonobj unrec handle_message_keeps [of L c msg s]
  show ?thesis by blast
qed

theorem C8_control_messages_witness:
  \<open>links ex_streamer 3 = Open
   \<and> json_dumps sample_libs pong = Inr ''{"type": "pong"}''
   \<and> json_loads sample_libs ''{"type": "ping"}'' = Inr (JObj [(''type'', JStr ''ping'')])
   \<and> map_of [(''type'', JStr ''ping'')] ''type'' = Some (JStr ''ping'')
   \<and> handle_message sample_libs 3 ''{"type": "ping"}'' ex_streamer =
       emit (Sent 3 (Text ''{"type": "pong"}'')) ex_streamer
   \<and> json_loads sample_libs ''hello'' = Inl JSONDecodeError
   \<and> handle_message sample_libs 3 ''hello'' ex_streamer = emit (Print (InvalidJSON 3)) ex_streamer
   \<and> json_loads sample_libs ''[1]'' = Inr (JArr [JInt 1])
   \<and> handle_message sample_libs 3 ''[1]'' ex_streamer =
       emit (Print (MessageError AttributeError)) ex_streamer
   \<and> json_loads sample_libs ''{"type": "status"}'' = Inr (JObj [(''type'', JStr ''status'')])
   \<and> map_of [(''type'', JStr ''status'')] ''type'' \<noteq> Some (JStr ''ping'')
   \<and> handle_message sample_libs 3 ''{"type": "status"}'' ex_streamer = ex_streamer\<close>
proof -
  have op: "links ex_streamer 3 = Open"
    by (simp add: ex_streamer_def)
  note th = C8_control_messages [OF op ex_pong]
  have m1: "map_of [(''type'', JStr ''ping'')] ''type'' = Some (JStr ''ping'')"
    and m2: "map_of [(''type'', JStr ''status'')] ''type'' \<noteq> Some (JStr ''ping'')"
    by simp_all
  have a: \<open>handle_message sample_libs 3 ''{"type": "ping"}'' ex_streamer =
       emit (Sent 3 (Text ''{"type": "pong"}'')) ex_streamer\<close>
    using th [of \<open>''{"type": "ping"}''\<close>] ex_loads(1) m1 by blast
  have b: "handle_message sample_libs 3 ''hello'' ex_streamer = emit (Print (InvalidJSON 3)) ex_streamer"
    using th [of "''hello''"] ex_loads(4) by blast
  have c: "handle_message sample_libs 3 ''[1]'' ex_streamer =
       emit (Print (MessageError AttributeError)) ex_streamer"
  proof -
    have "\<forall>items. JArr [JInt 1] \<noteq> JObj items" by simp
    with th [of "''[1]''"] ex_loads(3) show ?thesis by blast
  qed
  have d: \<open>handle_message sample_libs 3 ''{"type": "status"}'' ex_streamer = ex_streamer\<close>
    using th [of \<open>''{"type": "status"}''\<close>] ex_loads(2) m2 by blast
  from op ex_pong ex_loads m1 m2 a b c d show ?thesis
    by blast
qed

text \<open>
  Claim C8 as stated (every unrecognized message is logged) fails: for a JSON object of
  the type \<^verbatim>\<open>status\<close> the handler prints nothing.
\<close>

theorem C8_unrecognized_not_logged_counterexample:
  \<open>json_loads sample_libs ''{"type": "status"}'' = Inr (JObj [(''type'', JStr ''status'')])
   \<and> handle_message sample_libs 3 ''{"type": "status"}'' ex_streamer = ex_streamer
   \<and> printed (new_events ex_streamer (handle_message sample_libs 3 ''{"type": "status"}'' ex_streamer)) = []\<close>
proof -
  have h: \<open>handle_message sample_libs 3 ''{"type": "status"}'' ex_streamer = ex_streamer\<close>
    by (simp add: handle_message_def message_body_def dict_get_def ex_loads)
  show ?thesis
    by (simp add: h ex_loads new_events_def printed_def)
qed

text \<open>
  Claim C9, as the code has it. The builder never raises to its caller. It returns
  \<^verbatim>\<open>None\<close> exactly when the colour image has no pixels, or some sampled pixel with a
  depth that is not zero meets an absent calibration or lies outside the colour image.
  When it returns \<^verbatim>\<open>None\<close>, the iteration prints a line, sends nothing and leaves the
  registry as it is.
\<close>

theorem C9_builder_errors:
  "(generate_point_cloud intr now df cf = None \<longleftrightarrow>
      nrows (color_data cf) = 0 \<or> ncols (color_data cf) = 0 \<or>
      (\<exists>(y, x) \<in> set (sampled_pixels (nrows (depth_data df)) (ncols (depth_data df))).
          cell (depth_data df) y x \<noteq> 0 \<and>
          (intr = None \<or> nrows (color_data cf) \<le> y \<or> ncols (color_data cf) \<le> x)))
   \<and> (generate_point_cloud intr now df cf = None \<longrightarrow>
        tick L intr now (Some df) (Some cf) s = emit (Print GenerateError) s \<and>
        clients (tick L intr now (Some df) (Some cf) s) = clients s \<and>
        recipients (new_events s (tick L intr now (Some df) (Some cf) s)) = [])"
proof (rule conjI)
  have "buildable intr df cf \<longleftrightarrow>
      \<not> (nrows (color_data cf) = 0 \<or> ncols (color_data cf) = 0 \<or>
      (\<exists>(y, x) \<in> set (sampled_pixels (nrows (depth_data df)) (ncols (depth_data df))).
          cell (depth_data df) y x \<noteq> 0 \<and>
          (intr = None \<or> nrows (color_data cf) \<le> y \<or> ncols (color_data cf) \<le> x)))"
    by (auto simp: buildable_def pixel_ok_def)
  then show "generate_point_cloud intr now df cf = None \<longleftrightarrow>
      nrows (color_data cf) = 0 \<or> ncols (color_data cf) = 0 \<or>
      (\<exists>(y, x) \<in> set (sampled_pixels (nrows (depth_data df)) (ncols (depth_data df))).
          cell (depth_data df) y x \<noteq> 0 \<and>
          (intr = None \<or> nrows (color_data cf) \<le> y \<or> ncols (color_data cf) \<le> x))"
    by (simp only: generate_point_cloud_None_iff) blast
next
  show "generate_point_cloud intr now df cf = None \<longrightarrow>
        tick L intr now (Some df) (Some cf) s = emit (Print GenerateError) s \<and>
        clients (tick L intr now (Some df) (Some cf) s) = clients s \<and>
        recipients (new_events s (tick L intr now (Some df) (Some cf) s)) = []"
    by (simp add: tick_skip recipients_def)
qed

theorem C9_builder_errors_witness:
  "sampled_pixels 3 3 = [(0, 0), (0, 2), (2, 0), (2, 2)]
   \<and> cell ex_depth 2 2 \<noteq> 0 \<and> nrows small_color \<le> 2
   \<and> generate_point_cloud (Some ex_K) 5
        \<lparr>depth_data = ex_depth, units = 1 / 1000\<rparr> \<lparr>color_data = small_color\<rparr> = None
   \<and> tick sample_libs (Some ex_K) 5
        (Some \<lparr>depth_data = ex_depth, units = 1 / 1000\<rparr>) (Some \<lparr>color_data = small_color\<rparr>) ex_streamer
      = emit (Print GenerateError) ex_streamer
   \<and> clients (tick sample_libs (Some ex_K) 5
        (Some \<lparr>depth_data = ex_depth, units = 1 / 1000\<rparr>) (Some \<lparr>color_data = small_color\<rparr>) ex_streamer)
      = [1, 2, 3]"
proof -
  have h: "cell ex_depth 2 2 \<noteq> 0" "nrows small_color \<le> 2"
    by (simp_all add: ex_depth_def small_color_def)
  with C9_builder_errors [of "Some ex_K" 5 "\<lparr>depth_data = ex_depth, units = 1 / 1000\<rparr>"
      "\<lparr>color_data = small_color\<rparr>" sample_libs ex_streamer]
  have "generate_point_cloud (Some ex_K) 5
        \<lparr>depth_data = ex_depth, units = 1 / 1000\<rparr> \<lparr>color_data = small_color\<rparr> = None"
    by (simp add: sampled33 ex_depth_def small_color_def)
  with C9_builder_errors [of "Some ex_K" 5 "\<lparr>depth_data = ex_depth, units = 1 / 1000\<rparr>"
      "\<lparr>color_data = small_color\<rparr>" sample_libs ex_streamer] h
  show ?thesis
    by (simp add: sampled33 ex_streamer_def)
qed

text \<open>
  Claim C9 as stated (an error whenever the shapes differ or the calibration is absent)
  fails: a colour image of another shape that has every pixel the builder reads gives a
  snapshot, and so does an absent calibration with a depth image of zeros.
\<close>

theorem C9_dimension_mismatch_counterexample:
  "nrows ex_depth \<noteq> nrows wide_color \<and> ncols ex_depth \<noteq> ncols wide_color
   \<and> generate_point_cloud (Some ex_K) 5
        \<lparr>depth_data = ex_depth, units = 1 / 1000\<rparr> \<lparr>color_data = wide_color\<rparr>
     = Some \<lparr>points = [[0, 0, 1]], colors = [[30, 20, 10]], timestamp = 5\<rparr>
   \<and> generate_point_cloud None 5
        \<lparr>depth_data = zero_depth, units = 1 / 1000\<rparr> \<lparr>color_data = ex_color\<rparr>
     = Some \<lparr>points = [], colors = [], timestamp = 5\<rparr>"
  using wide_run zero_run by (simp add: ex_depth_def wide_color_def)

text \<open>
  Claim C10. When every sampled pixel has the depth zero (and the colour image has
  pixels), the builder returns the snapshot with two empty lists, not an error. The encoder
  returns a payload for it: the gzip member of the bytes of the text
  \<^verbatim>\<open>{"points": [], "colors": [], "timestamp": t}\<close>, \<open>t\<close> the text of the timestamp;
  this payload is not empty. The iteration then runs the round of sending with this
  payload: it is written to every registered client whose connection is open, once to each.
\<close>

theorem C10_empty_tick_is_broadcast:
  assumes zero: "\<forall>(y, x) \<in> set (sampled_pixels (nrows (depth_data df)) (ncols (depth_data df))).
                   cell (depth_data df) y x = 0"
    and img: "nrows (color_data cf) \<noteq> 0" "ncols (color_data cf) \<noteq> 0"
  shows "generate_point_cloud intr now df cf = Some \<lparr>points = [], colors = [], timestamp = now\<rparr>
    \<and> compress_point_cloud (python_libs float_repr loads member_rest)
          \<lparr>points = [], colors = [], timestamp = now\<rparr> =
        Some (empty_cloud_payload float_repr member_rest now)
    \<and> empty_cloud_payload float_repr member_rest now \<noteq> []
    \<and> tick (python_libs float_repr loads member_rest) intr now (Some df) (Some cf) s =
        fan_out (empty_cloud_payload float_repr member_rest now) s
    \<and> recipients (new_events s
          (tick (python_libs float_repr loads member_rest) intr now (Some df) (Some cf) s)) =
        filter (\<lambda>c. links s c = Open) (clients s)
    \<and> (distinct (clients s) \<longrightarrow>
         (\<forall>c \<in> set (clients s). links s c = Open \<longrightarrow>
            sent_to c (new_events s
              (tick (python_libs float_repr loads member_rest) intr now (Some df) (Some cf) s)) =
            [Binary (empty_cloud_payload float_repr member_rest now)]))"
proof -
  let ?L = "python_libs float_repr loads member_rest"
  let ?p = "empty_cloud_payload float_repr member_rest now"
  from zero img have "buildable intr df cf"
    by (auto simp: buildable_def pixel_ok_def)
  moreover from zero have "returned_pixels (depth_data df) = []"
    by (rule returned_pixels_empty)
  ultimately have g: "generate_point_cloud intr now df cf = Some \<lparr>points = [], colors = [], timestamp = now\<rparr>"
    by (simp add: generate_point_cloud_ok)
  have c: "compress_point_cloud ?L \<lparr>points = [], colors = [], timestamp = now\<rparr> = Some ?p"
    by (rule compress_empty)
  have ne: "?p \<noteq> []"
    by (rule empty_cloud_payload_nonempty)
  have t: "tick ?L intr now (Some df) (Some cf) s = fan_out ?p s"
    by (simp add: tick_def g c ne)
  have r: "recipients (new_events s (tick ?L intr now (Some df) (Some cf) s)) =
        filter (\<lambda>c. links s c = Open) (clients s)"
    by (simp add: t recipients_fan_out)
  have "sent_to c (new_events s (tick ?L intr now (Some df) (Some cf) s)) = [Binary ?p]"
    if "distinct (clients s)" "c \<in> set (clients s)" "links s c = Open" for c
    using that by (simp add: t sent_to_fan_out filter_open_distinct)
  with g c ne t r show ?thesis
    by blast
qed

theorem C10_empty_tick_is_broadcast_witness:
  \<open>sampled_pixels 2 2 = [(0, 0)] \<and> cell zero_depth 0 0 = 0
   \<and> nrows ex_color \<noteq> 0 \<and> ncols ex_color \<noteq> 0
   \<and> distinct (clients ex_streamer) \<and> clients ex_streamer = [1, 2, 3]
   \<and> links ex_streamer 1 = Open \<and> links ex_streamer 2 = Closed \<and> links ex_streamer 3 = Open
   \<and> generate_point_cloud None 5 \<lparr>depth_data = zero_depth, units = 1 / 1000\<rparr> \<lparr>color_data = ex_color\<rparr>
       = Some \<lparr>points = [], colors = [], timestamp = 5\<rparr>
   \<and> empty_cloud_payload sample_repr (\<lambda>b. b) 5 =
       [0x1f, 0x8b, 0x08] @
       map (\<lambda>c. of_nat (of_char c)) ''{"points": [], "colors": [], "timestamp": 5.0}''
   \<and> compress_point_cloud (python_libs sample_repr (json_loads sample_libs) (\<lambda>b. b))
         \<lparr>points = [], colors = [], timestamp = 5\<rparr> =
       Some (empty_cloud_payload sample_repr (\<lambda>b. b) 5)
   \<and> recipients (new_events ex_streamer
        (tick (python_libs sample_repr (json_loads sample_libs) (\<lambda>b. b)) None 5
           (Some \<lparr>depth_data = zero_depth, units = 1 / 1000\<rparr>)
           (Some \<lparr>color_data = ex_color\<rparr>) ex_streamer)) = [1, 3]
   \<and> sent_to 3 (new_events ex_streamer
        (tick (python_libs sample_repr (json_loads sample_libs) (\<lambda>b. b)) None 5
           (Some \<lparr>depth_data = zero_depth, units = 1 / 1000\<rparr>)
           (Some \<lparr>color_data = ex_color\<rparr>) ex_streamer)) =
       [Binary (empty_cloud_payload sample_repr (\<lambda>b. b) 5)]\<close>
proof -
  have zero: "\<forall>(y, x) \<in> set (sampled_pixels (nrows (depth_data \<lparr>depth_data = zero_depth, units = 1 / 1000\<rparr>))
                 (ncols (depth_data \<lparr>depth_data = zero_depth, units = 1 / 1000\<rparr>))).
                   cell (depth_data \<lparr>depth_data = zero_depth, units = 1 / 1000\<rparr>) y x = 0"
    by (simp add: zero_depth_def)
  have img: "nrows (color_data \<lparr>color_data = ex_color\<rparr>) \<noteq> 0" "ncols (color_data \<lparr>color_data = ex_color\<rparr>) \<noteq> 0"
    by (simp_all add: ex_color_def)
  have d: "distinct (clients ex_streamer)" and cs: "clients ex_streamer = [1, 2, 3]"
    and l: "links ex_streamer 1 = Open" "links ex_streamer 2 = Closed" "links ex_streamer 3 = Open"
    by (simp_all add: ex_streamer_def)
  note th = C10_empty_tick_is_broadcast [OF zero img, of None 5 sample_repr "json_loads sample_libs"
      "\<lambda>b. b" ex_streamer]
  have g: "generate_point_cloud None 5 \<lparr>depth_data = zero_depth, units = 1 / 1000\<rparr> \<lparr>color_data = ex_color\<rparr>
       = Some \<lparr>points = [], colors = [], timestamp = 5\<rparr>"
    using th [THEN conjunct1] by simp
  have c: "compress_point_cloud (python_libs sample_repr (json_loads sample_libs) (\<lambda>b. b))
         \<lparr>points = [], colors = [], timestamp = 5\<rparr> =
       Some (empty_cloud_payload sample_repr (\<lambda>b. b) 5)"
    using th [THEN conjunct2, THEN conjunct1] .
  have r: "recipients (new_events ex_streamer
        (tick (python_libs sample_repr (json_loads sample_libs) (\<lambda>b. b)) None 5
           (Some \<lparr>depth_data = zero_depth, units = 1 / 1000\<rparr>)
           (Some \<lparr>color_data = ex_color\<rparr>) ex_streamer)) = [1, 3]"
    using th [THEN conjunct2, THEN conjunct2, THEN conjunct2, THEN conjunct2, THEN conjunct1] cs l by simp
  have t: "sent_to 3 (new_events ex_streamer
        (tick (python_libs sample_repr (json_loads sample_libs) (\<lambda>b. b)) None 5
           (Some \<lparr>depth_data = zero_depth, units = 1 / 1000\<rparr>)
           (Some \<lparr>color_data = ex_color\<rparr>) ex_streamer)) =
       [Binary (empty_cloud_payload sample_repr (\<lambda>b. b) 5)]"
    using th [THEN conjunct2, THEN conjunct2, THEN conjunct2, THEN conjunct2, THEN conjunct2] d cs l by simp
  have p: \<open>empty_cloud_payload sample_repr (\<lambda>b. b) 5 =
       [0x1f, 0x8b, 0x08] @
       map (\<lambda>c. of_nat (of_char c)) ''{"points": [], "colors": [], "timestamp": 5.0}''\<close>
    by (simp add: empty_cloud_payload_def sample_repr_def)
  have "sampled_pixels 2 2 = [(0, 0)]" "cell zero_depth 0 0 = 0"
    "nrows ex_color \<noteq> 0" "ncols ex_color \<noteq> 0"
    by (simp_all add: sampled22 zero_depth_def ex_color_def)
  with d cs l g c r t p show ?thesis
    by blast
qed

end
